theory Spec2Isabelle
  imports Complex_Main "HOL-Library.AList" "HOL-Library.Sublist"
begin

section \<open>Data model of \<^verbatim>\<open>swarm_framework.py\<close>\<close>

text \<open>
  The embedding follows the Python source function by function.

  \<^item> A Python \<^verbatim>\<open>dict\<close> is an association list in insertion order; \<^verbatim>\<open>d[k] = v\<close> is
    \<^const>\<open>AList.update\<close> (replace in place, or append a new key), \<^verbatim>\<open>d.get(k)\<close> and
    \<^verbatim>\<open>k in d\<close> are \<^const>\<open>map_of\<close>, \<^verbatim>\<open>d.keys()\<close> is \<open>map fst\<close>.
  \<^item> Exceptions are values of type \<open>error\<close>; an operation that can raise returns
    \<open>error + 'a\<close> together with the state it leaves behind.
  \<^item> The source raises \<^verbatim>\<open>ValueError\<close> both for a missing credential and for an unknown
    agent name; the two differ in their message (\<open>key_required\<close>, \<open>not_found\<close>).
  \<^item> The context dictionary is a mutable object that \<^verbatim>\<open>run\<close> copies into its result, so
    dictionaries live in an explicit store (\<open>dicts\<close>, indexed by address) and the
    \<^verbatim>\<open>Swarm\<close> and each \<^verbatim>\<open>SwarmResult\<close> hold an address. Allocation appends to the store,
    so an address is allocated when it is below the length of \<open>dicts\<close>; every address
    that the operations hand out is.
  \<^item> The values kept in the context are opaque to the framework; the model is polymorphic
    in their type \<open>'v\<close>. Persistence goes through \<^verbatim>\<open>json\<close>, so it is defined at \<open>'v = json\<close>.
  \<^item> The wall clock, the process environment and the remote completion service are
    parameters (\<open>env\<close>); the world counts the observations made of them (\<open>ticks\<close>) so
    that successive reads may differ, and records every request sent (\<open>outbox\<close>).
  \<^item> Console output (\<^verbatim>\<open>print\<close>) is not modelled.
\<close>

type_synonym addr = nat

datatype json =
    JNull
  | JBool bool
  | JInt int
  | JReal rat
  | JStr string
  | JArr "json list"
  | JObj "(string \<times> json) list"

text \<open>A Python function object held in \<^verbatim>\<open>Agent.functions\<close>; only its identity matters.\<close>

datatype callable = Callable string

datatype error =
    ValueError string
  | TypeError string
  | KeyError string
  | AttributeError string
  | FileNotFoundError string
  | JSONDecodeError
  | Unmodelled string

text \<open>
  \<open>Unmodelled\<close> marks inputs on which Python would go on with a value whose type the
  dataclass annotations exclude (a number where \<^verbatim>\<open>name: str\<close> is declared, say); the typed
  model stops there. No theorem below depends on such an input.
\<close>

record Agent =
  name :: string
  instructions :: string
  "functions" :: "callable list"
  model :: string
  temperature :: rat
  max_tokens :: int

text \<open>
  \<^verbatim>\<open>timestamp\<close> is \<^verbatim>\<open>Optional[str]\<close> in the source, but \<^verbatim>\<open>__post_init__\<close> replaces
  \<^verbatim>\<open>None\<close> by the current time, so a constructed \<^verbatim>\<open>Message\<close> always carries a string.
\<close>

record Message =
  role :: string
  content :: string
  name :: "string option"
  function_call :: "(string \<times> json) list option"
  timestamp :: string

record SwarmResult =
  messages :: "Message list"
  agent :: Agent
  context_variables :: addr

text \<open>\<open>client\<close> is the credential held by the \<^verbatim>\<open>openai.OpenAI\<close> client object.\<close>

record Swarm =
  client :: string
  agents :: "(string \<times> Agent) list"
  conversation_history :: "Message list"
  context_variables :: addr

section \<open>The world outside the \<^verbatim>\<open>Swarm\<close> object\<close>

text \<open>One turn of the outbound request: \<^verbatim>\<open>{"role": r, "content": c}\<close>.\<close>

type_synonym turn = "string \<times> string"

text \<open>The keyword arguments of \<^verbatim>\<open>client.chat.completions.create\<close>.\<close>

record request =
  req_model :: string
  req_messages :: "turn list"
  req_temperature :: rat
  req_max_tokens :: int

text \<open>
  A file either holds a complete JSON document or was opened for writing and left
  with an incomplete one.
\<close>

datatype file_content = Document json | Truncated

record 'v world =
  ticks :: nat
  dicts :: "(string \<times> 'v) list list"
  files :: "(string \<times> file_content) list"
  outbox :: "request list"

text \<open>
  \<open>clock E t\<close> is \<^verbatim>\<open>datetime.now().isoformat()\<close> at observation \<open>t\<close>.
  \<open>completion E key t req\<close> is what the \<^verbatim>\<open>try\<close> block of \<^verbatim>\<open>run\<close> gets from the remote
  service at observation \<open>t\<close>: \<open>Inr text\<close> when \<^verbatim>\<open>response.choices[0].message.content\<close> is
  \<open>text\<close>, \<open>Inl d\<close> when anything in the block raises an \<^verbatim>\<open>Exception e\<close> with
  \<^verbatim>\<open>str(e)\<close> equal to \<open>d\<close>. \<open>getenv E\<close> is \<^verbatim>\<open>os.getenv\<close>.
\<close>

record env =
  clock :: "nat \<Rightarrow> string"
  completion :: "string \<Rightarrow> nat \<Rightarrow> request \<Rightarrow> string + string"
  getenv :: "string \<Rightarrow> string option"

section \<open>Python primitives\<close>

text \<open>\<^verbatim>\<open>xs[i:]\<close>: a negative start counts from the end, and the start is clamped to the list.\<close>

definition py_slice_from :: "int \<Rightarrow> 'a list \<Rightarrow> 'a list" where
  "py_slice_from i xs =
     (let n = int (length xs);
          start = (if i < 0 then max (n + i) 0 else min i n)
      in drop (nat start) xs)"

text \<open>\<^verbatim>\<open>d.update(other)\<close>: \<^verbatim>\<open>d[k] = v\<close> for each item of \<^verbatim>\<open>other\<close>, in order.\<close>

definition dict_update :: "(string \<times> 'v) list \<Rightarrow> (string \<times> 'v) list \<Rightarrow> (string \<times> 'v) list" where
  "dict_update d other = foldl (\<lambda>d kv. AList.update (fst kv) (snd kv) d) d other"

text \<open>\<^verbatim>\<open>d[k] = v\<close> on the dictionary object at address \<open>a\<close>.\<close>

definition dict_setitem :: "addr \<Rightarrow> string \<Rightarrow> 'v \<Rightarrow> 'v world \<Rightarrow> 'v world" where
  "dict_setitem a k v w = w\<lparr>dicts := (dicts w)[a := AList.update k v (dicts w ! a)]\<rparr>"

text \<open>\<^verbatim>\<open>d.copy()\<close>: a new dictionary object with the same items.\<close>

definition dict_copy :: "addr \<Rightarrow> 'v world \<Rightarrow> addr \<times> 'v world" where
  "dict_copy a w = (length (dicts w), w\<lparr>dicts := dicts w @ [dicts w ! a]\<rparr>)"

text \<open>\<^verbatim>\<open>{}\<close>: a new empty dictionary object.\<close>

definition dict_new :: "(string \<times> 'v) list \<Rightarrow> 'v world \<Rightarrow> addr \<times> 'v world" where
  "dict_new d w = (length (dicts w), w\<lparr>dicts := dicts w @ [d]\<rparr>)"

text \<open>Truthiness of an \<^verbatim>\<open>Optional[str]\<close> and of an \<^verbatim>\<open>Optional[Dict]\<close>.\<close>

definition truthy :: "'a list option \<Rightarrow> bool" where
  "truthy x = (case x of None \<Rightarrow> False | Some v \<Rightarrow> v \<noteq> [])"

definition now :: "env \<Rightarrow> 'v world \<Rightarrow> string \<times> 'v world" where
  "now E w = (clock E (ticks w), w\<lparr>ticks := Suc (ticks w)\<rparr>)"

text \<open>\<^verbatim>\<open>Message(role, content, name, function_call, timestamp)\<close> with its \<^verbatim>\<open>__post_init__\<close>.\<close>

definition Message_init ::
  "env \<Rightarrow> string \<Rightarrow> string \<Rightarrow> string option \<Rightarrow> (string \<times> json) list option \<Rightarrow> string option
     \<Rightarrow> 'v world \<Rightarrow> Message \<times> 'v world" where
  "Message_init E r c n fc ts w =
     (case ts of
        Some t \<Rightarrow> (\<lparr>role = r, content = c, name = n, function_call = fc, timestamp = t\<rparr>, w)
      | None \<Rightarrow>
          (let (t, w') = now E w
           in (\<lparr>role = r, content = c, name = n, function_call = fc, timestamp = t\<rparr>, w')))"

section \<open>The \<^verbatim>\<open>Swarm\<close> class\<close>

definition quote :: "string \<Rightarrow> string" where
  "quote s = CHR 0x27 # s @ [CHR 0x27]"

definition key_required :: string where
  "key_required =
     ''OpenAI API key required. Set OPENAI_API_KEY environment variable or pass api_key parameter.''"

text \<open>
  \<^verbatim>\<open>Swarm.__init__\<close>. Building the \<^verbatim>\<open>openai.OpenAI\<close> client from a non-empty key makes no
  request and is taken to succeed.
\<close>

definition Swarm_new :: "string \<Rightarrow> 'v world \<Rightarrow> Swarm \<times> 'v world" where
  "Swarm_new key w =
     (let (c, w') = dict_new [] w
      in (\<lparr>client = key, agents = [], conversation_history = [], context_variables = c\<rparr>, w'))"

definition Swarm_init :: "env \<Rightarrow> string option \<Rightarrow> 'v world \<Rightarrow> (error + Swarm) \<times> 'v world" where
  "Swarm_init E api_key w =
     (if truthy api_key then
        (let (s, w') = Swarm_new (the api_key) w in (Inr s, w'))
      else
        (let api_key' = getenv E ''OPENAI_API_KEY''
         in if \<not> truthy api_key' then (Inl (ValueError key_required), w)
            else (let (s, w') = Swarm_new (the api_key') w in (Inr s, w'))))"

definition add_agent :: "Agent \<Rightarrow> Swarm \<Rightarrow> Swarm" where
  "add_agent a s = s\<lparr>agents := AList.update (Agent.name a) a (agents s)\<rparr>"

definition remove_agent :: "string \<Rightarrow> Swarm \<Rightarrow> bool \<times> Swarm" where
  "remove_agent agent_name s =
     (if map_of (agents s) agent_name \<noteq> None
      then (True, s\<lparr>agents := AList.delete agent_name (agents s)\<rparr>)
      else (False, s))"

definition get_agent :: "string \<Rightarrow> Swarm \<Rightarrow> Agent option" where
  "get_agent agent_name s = map_of (agents s) agent_name"

definition list_agents :: "Swarm \<Rightarrow> string list" where
  "list_agents s = map fst (agents s)"

definition set_context :: "string \<Rightarrow> 'v \<Rightarrow> Swarm \<times> 'v world \<Rightarrow> Swarm \<times> 'v world" where
  "set_context key v st =
     (case st of (s, w) \<Rightarrow> (s, dict_setitem (Swarm.context_variables s) key v w))"

definition get_context :: "string \<Rightarrow> 'v option \<Rightarrow> Swarm \<times> 'v world \<Rightarrow> 'v option" where
  "get_context key dflt st =
     (case st of (s, w) \<Rightarrow>
        (case map_of (dicts w ! Swarm.context_variables s) key of
           Some v \<Rightarrow> Some v
         | None \<Rightarrow> dflt))"

definition clear_history :: "Swarm \<Rightarrow> Swarm" where
  "clear_history s = s\<lparr>conversation_history := []\<rparr>"

definition add_message :: "Message \<Rightarrow> Swarm \<Rightarrow> Swarm" where
  "add_message m s = s\<lparr>conversation_history := conversation_history s @ [m]\<rparr>"

text \<open>
  Lines 127-128 of \<^verbatim>\<open>run\<close> and 244-245 of \<^verbatim>\<open>multi_agent_run\<close>:
  \<^verbatim>\<open>if context_variables: self.context_variables.update(context_variables)\<close>.
\<close>

definition merge_context :: "(string \<times> 'v) list option \<Rightarrow> Swarm \<Rightarrow> 'v world \<Rightarrow> 'v world" where
  "merge_context cv s w =
     (if truthy cv
      then w\<lparr>dicts := (dicts w)[Swarm.context_variables s :=
                dict_update (dicts w ! Swarm.context_variables s) (the cv)]\<rparr>
      else w)"

text \<open>Lines 135-148 of \<^verbatim>\<open>run\<close>: the system turn, then the trailing window of the history.\<close>

definition api_messages :: "Agent \<Rightarrow> Message list \<Rightarrow> int \<Rightarrow> turn list" where
  "api_messages a history max_turns =
     (''system'', instructions a)
       # map (\<lambda>msg. (role msg, content msg)) (py_slice_from (- max_turns) history)"

text \<open>Lines 152-157: the request that \<^verbatim>\<open>run\<close> sends for agent \<open>a\<close> over a given history.\<close>

definition request_of :: "Agent \<Rightarrow> Message list \<Rightarrow> int \<Rightarrow> request" where
  "request_of a history max_turns =
     \<lparr>req_model = model a,
      req_messages = api_messages a history max_turns,
      req_temperature = temperature a,
      req_max_tokens = max_tokens a\<rparr>"

definition not_found :: "string \<Rightarrow> error" where
  "not_found agent_name = ValueError (''Agent '' @ quote agent_name @ '' not found'')"

definition run ::
  "env \<Rightarrow> string \<Rightarrow> Message list \<Rightarrow> (string \<times> 'v) list option \<Rightarrow> int
     \<Rightarrow> Swarm \<times> 'v world \<Rightarrow> (error + SwarmResult) \<times> Swarm \<times> 'v world" where
  "run E agent_name msgs cv max_turns st =
     (case st of (s, w) \<Rightarrow>
        (case map_of (agents s) agent_name of
           None \<Rightarrow> (Inl (not_found agent_name), s, w)
         | Some a \<Rightarrow>
             (let w1 = merge_context cv s w;
                  s1 = foldl (\<lambda>s msg. add_message msg s) s msgs;
                  req = request_of a (conversation_history s1) max_turns;
                  w2 = w1\<lparr>ticks := Suc (ticks w1), outbox := outbox w1 @ [req]\<rparr>
              in (case completion E (client s1) (ticks w1) req of
                    Inr text \<Rightarrow>
                      (let (response_msg, w3) =
                             Message_init E ''assistant'' text (Some (Agent.name a)) None None w2;
                           s2 = add_message response_msg s1;
                           (c, w4) = dict_copy (Swarm.context_variables s2) w3
                       in (Inr \<lparr>messages = [response_msg], agent = a, context_variables = c\<rparr>,
                           s2, w4))
                  | Inl e \<Rightarrow>
                      (let (error_msg, w3) =
                             Message_init E ''assistant'' (''Error: '' @ e) (Some (Agent.name a))
                               None None w2;
                           (c, w4) = dict_copy (Swarm.context_variables s1) w3
                       in (Inr \<lparr>messages = [error_msg], agent = a, context_variables = c\<rparr>,
                           s1, w4))))))"

text \<open>
  The loop of \<^verbatim>\<open>multi_agent_run\<close> (lines 247-259), with its two loop variables
  \<^verbatim>\<open>results\<close> and \<^verbatim>\<open>current_message\<close>. A \<^verbatim>\<open>ValueError\<close> from \<^verbatim>\<open>run\<close> ends it.
\<close>

fun multi_agent_loop ::
  "env \<Rightarrow> string list \<Rightarrow> SwarmResult list \<Rightarrow> string \<Rightarrow> Swarm \<times> 'v world
     \<Rightarrow> (error + SwarmResult list) \<times> Swarm \<times> 'v world" where
  "multi_agent_loop E [] results current_message st = (Inr results, st)"
| "multi_agent_loop E (agent_name # rest) results current_message (s, w) =
     (let (msg, w1) = Message_init E ''user'' current_message None None None w
      in (case run E agent_name [msg] None 10 (s, w1) of
            (Inl e, st') \<Rightarrow> (Inl e, st')
          | (Inr result, st') \<Rightarrow>
              multi_agent_loop E rest (results @ [result])
                (if messages result \<noteq> [] then content (last (messages result))
                 else current_message)
                st'))"

definition multi_agent_run ::
  "env \<Rightarrow> string list \<Rightarrow> string \<Rightarrow> (string \<times> 'v) list option \<Rightarrow> Swarm \<times> 'v world
     \<Rightarrow> (error + SwarmResult list) \<times> Swarm \<times> 'v world" where
  "multi_agent_run E agent_sequence initial_message cv st =
     (case st of (s, w) \<Rightarrow>
        multi_agent_loop E agent_sequence [] initial_message (s, merge_context cv s w))"

section \<open>Persistence\<close>

text \<open>
  \<^verbatim>\<open>asdict(agent)\<close> as \<^verbatim>\<open>json.dump\<close> encodes it. \<^verbatim>\<open>asdict\<close> keeps the function objects
  of \<^verbatim>\<open>functions\<close> in the list; the encoder has no encoding for a function object and
  raises \<^verbatim>\<open>TypeError\<close> at the first one it meets.
\<close>

definition not_serializable :: error where
  "not_serializable = TypeError ''Object of type function is not JSON serializable''"

definition json_of_callable :: "callable \<Rightarrow> error + json" where
  "json_of_callable f = Inl not_serializable"

fun json_of_functions :: "callable list \<Rightarrow> error + json list" where
  "json_of_functions [] = Inr []"
| "json_of_functions (f # fs) =
     (case json_of_callable f of
        Inl e \<Rightarrow> Inl e
      | Inr j \<Rightarrow>
          (case json_of_functions fs of
             Inl e \<Rightarrow> Inl e
           | Inr js \<Rightarrow> Inr (j # js)))"

definition json_of_Agent :: "Agent \<Rightarrow> error + json" where
  "json_of_Agent a =
     (case json_of_functions (functions a) of
        Inl e \<Rightarrow> Inl e
      | Inr fs \<Rightarrow>
          Inr (JObj [(''name'', JStr (Agent.name a)),
                     (''instructions'', JStr (instructions a)),
                     (''functions'', JArr fs),
                     (''model'', JStr (model a)),
                     (''temperature'', JReal (temperature a)),
                     (''max_tokens'', JInt (max_tokens a))]))"

fun json_of_agents :: "(string \<times> Agent) list \<Rightarrow> error + (string \<times> json) list" where
  "json_of_agents [] = Inr []"
| "json_of_agents ((n, a) # rest) =
     (case json_of_Agent a of
        Inl e \<Rightarrow> Inl e
      | Inr j \<Rightarrow>
          (case json_of_agents rest of
             Inl e \<Rightarrow> Inl e
           | Inr js \<Rightarrow> Inr ((n, j) # js)))"

definition json_of_Message :: "Message \<Rightarrow> json" where
  "json_of_Message m =
     JObj [(''role'', JStr (role m)),
           (''content'', JStr (content m)),
           (''name'', (case name m of None \<Rightarrow> JNull | Some n \<Rightarrow> JStr n)),
           (''function_call'', (case function_call m of None \<Rightarrow> JNull | Some d \<Rightarrow> JObj d)),
           (''timestamp'', JStr (timestamp m))]"

text \<open>
  \<^verbatim>\<open>save_state\<close>: the state dictionary is built (reading the clock), the file is opened
  for writing, which empties it, and \<^verbatim>\<open>json.dump\<close> writes the document; when the encoder
  raises, the file stays incomplete. The file system is taken to be writable.
\<close>

definition save_state ::
  "env \<Rightarrow> string \<Rightarrow> Swarm \<times> json world \<Rightarrow> (error + unit) \<times> Swarm \<times> json world" where
  "save_state E filename st =
     (case st of (s, w) \<Rightarrow>
        (let (ts, w1) = now E w;
             w2 = w1\<lparr>files := AList.update filename Truncated (files w1)\<rparr>
         in (case json_of_agents (agents s) of
               Inl e \<Rightarrow> (Inl e, s, w2)
             | Inr ags \<Rightarrow>
                 (let state =
                        JObj [(''agents'', JObj ags),
                              (''conversation_history'',
                                 JArr (map json_of_Message (conversation_history s))),
                              (''context_variables'', JObj (dicts w ! Swarm.context_variables s)),
                              (''timestamp'', JStr ts)]
                  in (Inr (), s,
                      w2\<lparr>files := AList.update filename (Document state) (files w2)\<rparr>)))))"

definition and_then :: "error + 'a \<Rightarrow> ('a \<Rightarrow> error + 'b) \<Rightarrow> error + 'b" where
  "and_then x f = (case x of Inl e \<Rightarrow> Inl e | Inr v \<Rightarrow> f v)"

text \<open>Reading one keyword argument of a dataclass constructor out of \<^verbatim>\<open>**data\<close>.\<close>

definition missing :: "string \<Rightarrow> error" where
  "missing k = TypeError (''missing required argument: '' @ quote k)"

definition str_arg :: "(string \<times> json) list \<Rightarrow> string \<Rightarrow> string option \<Rightarrow> error + string" where
  "str_arg kw k dflt =
     (case map_of kw k of
        None \<Rightarrow> (case dflt of None \<Rightarrow> Inl (missing k) | Some d \<Rightarrow> Inr d)
      | Some (JStr v) \<Rightarrow> Inr v
      | Some _ \<Rightarrow> Inl (Unmodelled k))"

definition opt_str_arg :: "(string \<times> json) list \<Rightarrow> string \<Rightarrow> error + string option" where
  "opt_str_arg kw k =
     (case map_of kw k of
        None \<Rightarrow> Inr None
      | Some JNull \<Rightarrow> Inr None
      | Some (JStr v) \<Rightarrow> Inr (Some v)
      | Some _ \<Rightarrow> Inl (Unmodelled k))"

definition opt_dict_arg ::
  "(string \<times> json) list \<Rightarrow> string \<Rightarrow> error + (string \<times> json) list option" where
  "opt_dict_arg kw k =
     (case map_of kw k of
        None \<Rightarrow> Inr None
      | Some JNull \<Rightarrow> Inr None
      | Some (JObj d) \<Rightarrow> Inr (Some d)
      | Some _ \<Rightarrow> Inl (Unmodelled k))"

definition functions_arg :: "(string \<times> json) list \<Rightarrow> error + callable list" where
  "functions_arg kw =
     (case map_of kw ''functions'' of
        None \<Rightarrow> Inr []
      | Some JNull \<Rightarrow> Inr []
      | Some (JArr []) \<Rightarrow> Inr []
      | Some _ \<Rightarrow> Inl (Unmodelled ''functions''))"

definition float_arg :: "(string \<times> json) list \<Rightarrow> string \<Rightarrow> rat \<Rightarrow> error + rat" where
  "float_arg kw k dflt =
     (case map_of kw k of
        None \<Rightarrow> Inr dflt
      | Some (JReal r) \<Rightarrow> Inr r
      | Some (JInt i) \<Rightarrow> Inr (of_int i)
      | Some _ \<Rightarrow> Inl (Unmodelled k))"

definition int_arg :: "(string \<times> json) list \<Rightarrow> string \<Rightarrow> int \<Rightarrow> error + int" where
  "int_arg kw k dflt =
     (case map_of kw k of
        None \<Rightarrow> Inr dflt
      | Some (JInt i) \<Rightarrow> Inr i
      | Some _ \<Rightarrow> Inl (Unmodelled k))"

definition unexpected :: error where
  "unexpected = TypeError ''got an unexpected keyword argument''"

definition not_a_mapping :: error where
  "not_a_mapping = TypeError ''argument after ** must be a mapping''"

definition Agent_fields :: "string list" where
  "Agent_fields =
     [''name'', ''instructions'', ''functions'', ''model'', ''temperature'', ''max_tokens'']"

definition Message_fields :: "string list" where
  "Message_fields = [''role'', ''content'', ''name'', ''function_call'', ''timestamp'']"

text \<open>\<^verbatim>\<open>Agent(**agent_data)\<close> with the defaults of the dataclass and its \<^verbatim>\<open>__post_init__\<close>.\<close>

definition Agent_kwargs :: "json \<Rightarrow> error + Agent" where
  "Agent_kwargs agent_data =
     (case agent_data of
        JObj kw \<Rightarrow>
          (if \<not> list_all (\<lambda>k. k \<in> set Agent_fields) (map fst kw) then Inl unexpected
           else
             and_then (str_arg kw ''name'' None) (\<lambda>n.
             and_then (str_arg kw ''instructions'' None) (\<lambda>i.
             and_then (functions_arg kw) (\<lambda>fs.
             and_then (str_arg kw ''model'' (Some ''gpt-4'')) (\<lambda>m.
             and_then (float_arg kw ''temperature'' (7 / 10)) (\<lambda>t.
             and_then (int_arg kw ''max_tokens'' 1000) (\<lambda>mt.
               Inr \<lparr>Agent.name = n, instructions = i, functions = fs, model = m,
                    temperature = t, max_tokens = mt\<rparr>)))))))
      | _ \<Rightarrow> Inl not_a_mapping)"

text \<open>\<^verbatim>\<open>Message(**msg_data)\<close>; the clock is read only when no timestamp is given.\<close>

definition Message_kwargs ::
  "env \<Rightarrow> json \<Rightarrow> 'v world \<Rightarrow> (error + Message) \<times> 'v world" where
  "Message_kwargs E msg_data w =
     (case msg_data of
        JObj kw \<Rightarrow>
          (if \<not> list_all (\<lambda>k. k \<in> set Message_fields) (map fst kw) then (Inl unexpected, w)
           else
             (case and_then (str_arg kw ''role'' None) (\<lambda>r.
                   and_then (str_arg kw ''content'' None) (\<lambda>c.
                   and_then (opt_str_arg kw ''name'') (\<lambda>n.
                   and_then (opt_dict_arg kw ''function_call'') (\<lambda>fc.
                   and_then (opt_str_arg kw ''timestamp'') (\<lambda>ts.
                     Inr (r, c, n, fc, ts)))))) of
                Inl e \<Rightarrow> (Inl e, w)
              | Inr (r, c, n, fc, ts) \<Rightarrow>
                  (let (m, w') = Message_init E r c n fc ts w in (Inr m, w'))))
      | _ \<Rightarrow> (Inl not_a_mapping, w))"

text \<open>\<^verbatim>\<open>state[key]\<close>, \<^verbatim>\<open>x.items()\<close> and \<^verbatim>\<open>for msg_data in x\<close> on a parsed JSON value.\<close>

definition subscript :: "json \<Rightarrow> string \<Rightarrow> error + json" where
  "subscript j k =
     (case j of
        JObj kvs \<Rightarrow> (case map_of kvs k of None \<Rightarrow> Inl (KeyError k) | Some v \<Rightarrow> Inr v)
      | _ \<Rightarrow> Inl (TypeError ''not subscriptable by a string''))"

definition items :: "json \<Rightarrow> error + (string \<times> json) list" where
  "items j = (case j of JObj kvs \<Rightarrow> Inr kvs | _ \<Rightarrow> Inl (AttributeError ''items''))"

definition iterate :: "json \<Rightarrow> error + json list" where
  "iterate j =
     (case j of
        JArr xs \<Rightarrow> Inr xs
      | JObj kvs \<Rightarrow> Inr (map (\<lambda>kv. JStr (fst kv)) kvs)
      | JStr cs \<Rightarrow> Inr (map (\<lambda>c. JStr [c]) cs)
      | _ \<Rightarrow> Inl (TypeError ''object is not iterable''))"

text \<open>The two loops of \<^verbatim>\<open>load_state\<close>; an exception leaves what was restored so far.\<close>

fun restore_agents :: "(string \<times> json) list \<Rightarrow> Swarm \<Rightarrow> error option \<times> Swarm" where
  "restore_agents [] s = (None, s)"
| "restore_agents ((n, agent_data) # rest) s =
     (case Agent_kwargs agent_data of
        Inl e \<Rightarrow> (Some e, s)
      | Inr a \<Rightarrow> restore_agents rest (s\<lparr>agents := AList.update n a (agents s)\<rparr>))"

fun restore_history ::
  "env \<Rightarrow> json list \<Rightarrow> Swarm \<times> 'v world \<Rightarrow> error option \<times> Swarm \<times> 'v world" where
  "restore_history E [] st = (None, st)"
| "restore_history E (msg_data # rest) (s, w) =
     (case Message_kwargs E msg_data w of
        (Inl e, w') \<Rightarrow> (Some e, s, w')
      | (Inr msg, w') \<Rightarrow> restore_history E rest (add_message msg s, w'))"

definition load_state ::
  "env \<Rightarrow> string \<Rightarrow> Swarm \<times> json world \<Rightarrow> (error + unit) \<times> Swarm \<times> json world" where
  "load_state E filename st =
     (case st of (s, w) \<Rightarrow>
        (case map_of (files w) filename of
           None \<Rightarrow> (Inl (FileNotFoundError filename), s, w)
         | Some Truncated \<Rightarrow> (Inl JSONDecodeError, s, w)
         | Some (Document state) \<Rightarrow>
             (let s0 = s\<lparr>agents := []\<rparr>
              in (case and_then (subscript state ''agents'') items of
                    Inl e \<Rightarrow> (Inl e, s0, w)
                  | Inr entries \<Rightarrow>
                      (case restore_agents entries s0 of
                         (Some e, s1) \<Rightarrow> (Inl e, s1, w)
                       | (None, s1) \<Rightarrow>
                           (let s2 = s1\<lparr>conversation_history := []\<rparr>
                            in (case and_then (subscript state ''conversation_history'') iterate of
                                  Inl e \<Rightarrow> (Inl e, s2, w)
                                | Inr msgs \<Rightarrow>
                                    (case restore_history E msgs (s2, w) of
                                       (Some e, s3, w3) \<Rightarrow> (Inl e, s3, w3)
                                     | (None, s3, w3) \<Rightarrow>
                                         (case subscript state ''context_variables'' of
                                            Inl e \<Rightarrow> (Inl e, s3, w3)
                                          | Inr (JObj d) \<Rightarrow>
                                              (let (c, w4) = dict_new d w3
                                               in (Inr (), s3\<lparr>Swarm.context_variables := c\<rparr>, w4))
                                          | Inr _ \<Rightarrow>
                                              (Inl (Unmodelled ''context_variables''), s3, w3))))))))))"

section \<open>Notions used in the statements\<close>

text \<open>
  The assistant message that \<^verbatim>\<open>run\<close> builds (lines 163-167 and 180-184) for agent \<open>a\<close>
  with content \<open>c\<close>, when the clock is read at observation \<open>t\<close>.
\<close>

definition reply :: "env \<Rightarrow> Agent \<Rightarrow> nat \<Rightarrow> string \<Rightarrow> Message" where
  "reply E a t c =
     \<lparr>role = ''assistant'', content = c, name = Some (Agent.name a), function_call = None,
      timestamp = clock E t\<rparr>"

definition is_user :: "Message \<Rightarrow> bool" where
  "is_user m = (role m = ''user'')"

text \<open>The document that \<^verbatim>\<open>save_state\<close> writes for an agent without callables.\<close>

definition Agent_document :: "Agent \<Rightarrow> json" where
  "Agent_document a =
     JObj [(''name'', JStr (Agent.name a)),
           (''instructions'', JStr (instructions a)),
           (''functions'', JArr []),
           (''model'', JStr (model a)),
           (''temperature'', JReal (temperature a)),
           (''max_tokens'', JInt (max_tokens a))]"

text \<open>No registered agent carries a callable.\<close>

definition no_functions :: "(string \<times> Agent) list \<Rightarrow> bool" where
  "no_functions ags = list_all (\<lambda>na. functions (snd na) = []) ags"

text \<open>
  Context values for questions of aliasing: an immutable value, or a reference to
  another dictionary object of the store (a nested mutable value).
\<close>

datatype pyval = Imm json | Ref addr

section \<open>Example states\<close>

text \<open>A remote service that echoes its last input turn, and three that do not answer it.\<close>

definition env_echo :: env where
  "env_echo =
     \<lparr>clock = (\<lambda>t. ''T''),
      completion = (\<lambda>key t req. Inr (snd (last (req_messages req)))),
      getenv = (\<lambda>k. None)\<rparr>"

definition env_down :: env where
  "env_down =
     \<lparr>clock = (\<lambda>t. ''T''),
      completion = (\<lambda>key t req. Inl ''timeout''),
      getenv = (\<lambda>k. None)\<rparr>"

definition env_fake :: env where
  "env_fake =
     \<lparr>clock = (\<lambda>t. ''T''),
      completion = (\<lambda>key t req. Inr ''Error: timeout''),
      getenv = (\<lambda>k. None)\<rparr>"

definition env_key :: env where
  "env_key =
     \<lparr>clock = (\<lambda>t. ''T''),
      completion = (\<lambda>key t req. Inl ''401 invalid api key''),
      getenv = (\<lambda>k. if k = ''OPENAI_API_KEY'' then Some ''sk-env'' else None)\<rparr>"

definition world1 :: "'v world" where
  "world1 = \<lparr>ticks = 0, dicts = [[]], files = [], outbox = []\<rparr>"

definition world_nested :: "pyval world" where
  "world_nested =
     \<lparr>ticks = 0,
      dicts = [[(''prefs'', Ref 1)], [(''theme'', Imm (JStr ''dark''))]],
      files = [], outbox = []\<rparr>"

definition agent_A :: Agent where
  "agent_A =
     \<lparr>Agent.name = ''A'', instructions = ''be A'', functions = [], model = ''gpt-4'',
      temperature = 7 / 10, max_tokens = 1000\<rparr>"

definition agent_B :: Agent where
  "agent_B =
     \<lparr>Agent.name = ''B'', instructions = ''be B'', functions = [], model = ''gpt-4'',
      temperature = 7 / 10, max_tokens = 1000\<rparr>"

definition agent_F :: Agent where
  "agent_F =
     \<lparr>Agent.name = ''F'', instructions = ''use tools'', functions = [Callable ''lookup''],
      model = ''gpt-4'', temperature = 7 / 10, max_tokens = 1000\<rparr>"

definition swarm_AB :: Swarm where
  "swarm_AB =
     \<lparr>client = ''sk'', agents = [(''A'', agent_A), (''B'', agent_B)],
      conversation_history = [], context_variables = 0\<rparr>"

definition user_msg :: "string \<Rightarrow> Message" where
  "user_msg c =
     \<lparr>role = ''user'', content = c, name = None, function_call = None, timestamp = ''T''\<rparr>"

definition swarm_F :: Swarm where
  "swarm_F =
     \<lparr>client = ''sk'', agents = [(''A'', agent_A), (''F'', agent_F)],
      conversation_history = [user_msg ''hi''], context_variables = 0\<rparr>"

section \<open>Basic facts\<close>

lemma py_slice_from_zero: "py_slice_from 0 xs = xs"
  by (simp add: py_slice_from_def)

lemma py_slice_from_neg:
  "0 < k \<Longrightarrow> py_slice_from (- k) xs = drop (length xs - min (nat k) (length xs)) xs"
  by (auto simp: py_slice_from_def Let_def max_def min_def nat_diff_distrib'
      intro!: arg_cong [where f = "\<lambda>n. drop n xs"])

lemma py_slice_from_last:
  "0 < k \<Longrightarrow> xs \<noteq> [] \<Longrightarrow> last (py_slice_from (- k) xs) = last xs"
  by (simp add: py_slice_from_neg min_def)

lemma foldl_add_message:
  "foldl (\<lambda>s msg. add_message msg s) s msgs =
     s\<lparr>conversation_history := conversation_history s @ msgs\<rparr>"
  by (induction msgs arbitrary: s) (simp_all add: add_message_def)

lemma merge_context_fields [simp]:
  "ticks (merge_context cv s w) = ticks w"
  "outbox (merge_context cv s w) = outbox w"
  "files (merge_context cv s w) = files w"
  "length (dicts (merge_context cv s w)) = length (dicts w)"
  by (simp_all add: merge_context_def)

lemma dict_update_snoc:
  "dict_update d (other @ [kv]) = AList.update (fst kv) (snd kv) (dict_update d other)"
  by (simp add: dict_update_def)

text \<open>After \<^verbatim>\<open>d.update(other)\<close> a key holds its last value in \<open>other\<close>, else its old one.\<close>

lemma map_of_dict_update:
  "map_of (dict_update d other) k =
     (case map_of (rev other) k of Some v \<Rightarrow> Some v | None \<Rightarrow> map_of d k)"
proof (induction other rule: rev_induct)
  case Nil
  show ?case by (simp add: dict_update_def)
next
  case (snoc kv other)
  then show ?case
    by (cases kv) (simp add: dict_update_snoc update_conv')
qed

text \<open>What \<^verbatim>\<open>run\<close> does for a registered agent, in one equation.\<close>

lemma run_registered:
  assumes "map_of (agents s) agent_name = Some a"
  shows "run E agent_name msgs cv max_turns (s, w) =
     (let h = conversation_history s @ msgs;
          req = request_of a h max_turns;
          w1 = merge_context cv s w;
          w' = w1\<lparr>ticks := Suc (Suc (ticks w)),
                  dicts := dicts w1 @ [dicts w1 ! Swarm.context_variables s],
                  outbox := outbox w @ [req]\<rparr>
      in (case completion E (client s) (ticks w) req of
            Inr text \<Rightarrow>
              (Inr \<lparr>messages = [reply E a (Suc (ticks w)) text], agent = a,
                    context_variables = length (dicts w)\<rparr>,
               s\<lparr>conversation_history := h @ [reply E a (Suc (ticks w)) text]\<rparr>, w')
          | Inl e \<Rightarrow>
              (Inr \<lparr>messages = [reply E a (Suc (ticks w)) (''Error: '' @ e)], agent = a,
                    context_variables = length (dicts w)\<rparr>,
               s\<lparr>conversation_history := h\<rparr>, w')))"
  using assms unfolding run_def foldl_add_message
  by (simp add: Let_def Message_init_def now_def dict_copy_def add_message_def reply_def
      split: sum.split)

lemma run_error_is_not_found:
  assumes "fst (run E n msgs cv mt (s, w)) = Inl e"
  shows "e = not_found n \<and> n \<notin> set (list_agents s)"
proof (cases "map_of (agents s) n")
  case None
  then have "n \<notin> set (list_agents s)"
    by (simp add: list_agents_def map_of_eq_None_iff)
  moreover from None assms have "e = not_found n"
    by (simp add: run_def)
  ultimately show ?thesis by simp
next
  case (Some a)
  with assms show ?thesis
    by (simp add: run_registered Let_def split: sum.splits)
qed

lemma run_client: "client (fst (snd (run E n msgs cv mt (s, w)))) = client s"
proof (cases "map_of (agents s) n")
  case None
  then show ?thesis by (simp add: run_def)
next
  case (Some a)
  then show ?thesis by (simp add: run_registered Let_def split: sum.splits)
qed

text \<open>
  The store stays well formed: the context dictionary of a constructed \<^verbatim>\<open>Swarm\<close> is an
  allocated object, and \<^verbatim>\<open>run\<close> keeps it so.
\<close>

lemma Swarm_init_allocated:
  "Swarm_init E api_key w = (Inr s, w') \<Longrightarrow> Swarm.context_variables s < length (dicts w')"
  by (auto simp: Swarm_init_def Swarm_new_def dict_new_def Let_def split: if_splits)

lemma run_allocated:
  assumes "Swarm.context_variables s < length (dicts w)"
  shows "Swarm.context_variables (fst (snd (run E n msgs cv mt (s, w))))
           < length (dicts (snd (snd (run E n msgs cv mt (s, w)))))"
proof (cases "map_of (agents s) n")
  case None
  with assms show ?thesis by (simp add: run_def)
next
  case (Some a)
  with assms show ?thesis by (simp add: run_registered Let_def split: sum.splits)
qed

lemma last_request_turn:
  "last (req_messages (request_of a (h @ [m]) 10)) = (role m, content m)"
proof -
  have "py_slice_from (- 10) (h @ [m]) \<noteq> []"
    by (simp add: py_slice_from_neg)
  moreover have "last (py_slice_from (- 10) (h @ [m])) = m"
    by (simp add: py_slice_from_last)
  ultimately show ?thesis
    by (simp add: request_of_def api_messages_def last_map)
qed

lemma first_request_turn:
  "hd (req_messages (request_of a h k)) = (''system'', instructions a)"
  by (simp add: request_of_def api_messages_def)

section \<open>C1: a remote failure inside \<^verbatim>\<open>run\<close>\<close>

text \<open>
  C1, as the code has it. For a registered agent and a remote call that raises an
  exception with text \<open>d\<close>, \<^verbatim>\<open>run\<close> raises nothing: it returns a \<^verbatim>\<open>SwarmResult\<close> with
  exactly one message, an assistant message named after the invoked agent whose content
  is \<open>Error: d\<close>. The messages passed to the call are in the history afterwards and
  nothing was taken out of it. The result has no field that marks it as an error: it is
  the very result of a call whose remote answered with the text \<open>Error: d\<close>.
\<close>

theorem run_remote_failure_degraded:
  assumes "map_of (agents s) agent_name = Some a"
      and "completion E (client s) (ticks w)
             (request_of a (conversation_history s @ msgs) max_turns) = Inl d"
  shows "(case run E agent_name msgs cv max_turns (s, w) of (res, s', w') \<Rightarrow>
           (\<exists>m c. res = Inr \<lparr>messages = [m], agent = a, context_variables = c\<rparr>
                \<and> role m = ''assistant''
                \<and> content m = ''Error: '' @ d
                \<and> name m = Some (Agent.name a))
         \<and> prefix (conversation_history s @ msgs) (conversation_history s')
         \<and> res = fst (run (E\<lparr>completion := \<lambda>key t req. Inr (''Error: '' @ d)\<rparr>)
                        agent_name msgs cv max_turns (s, w)))"
  using assms
  by (simp add: run_registered Let_def reply_def)

theorem run_remote_failure_degraded_witness:
  "map_of (agents swarm_AB) ''A'' = Some agent_A \<and>
   completion env_down (client swarm_AB) (ticks (world1 :: json world))
     (request_of agent_A (conversation_history swarm_AB @ [user_msg ''hi'']) 10)
       = Inl ''timeout'' \<and>
   fst (run env_down ''A'' [user_msg ''hi''] None 10 (swarm_AB, world1 :: json world))
     = Inr \<lparr>messages = [\<lparr>role = ''assistant'', content = ''Error: timeout'', name = Some ''A'',
                           function_call = None, timestamp = ''T''\<rparr>],
            agent = agent_A, context_variables = 1\<rparr>"
proof -
  have a: "map_of (agents swarm_AB) ''A'' = Some agent_A"
    by (simp add: swarm_AB_def)
  have b: "completion env_down (client swarm_AB) (ticks (world1 :: json world))
     (request_of agent_A (conversation_history swarm_AB @ [user_msg ''hi'']) 10) = Inl ''timeout''"
    by (simp add: env_down_def)
  show ?thesis
    using a b run_remote_failure_degraded [OF a b, where cv = None]
    by (auto simp: run_registered Let_def reply_def env_down_def agent_A_def world1_def)
qed

text \<open>
  C1 as stated fails. With the remote down, the history after the call holds the input
  message only, so no degraded message was appended; and the result equals the one that
  a remote answering \<open>Error: timeout\<close> as ordinary text produces, so nothing but the
  content tells the two apart.
\<close>

theorem run_remote_failure_counterexample:
  "conversation_history (fst (snd (run env_down ''A'' [user_msg ''hi''] None 10
       (swarm_AB, world1 :: json world)))) = [user_msg ''hi''] \<and>
   fst (run env_down ''A'' [user_msg ''hi''] None 10 (swarm_AB, world1 :: json world))
     = fst (run env_fake ''A'' [user_msg ''hi''] None 10 (swarm_AB, world1 :: json world))"
  by (simp add: run_def swarm_AB_def env_down_def env_fake_def Let_def foldl_add_message
      Message_init_def now_def dict_copy_def world1_def merge_context_def truthy_def)

section \<open>C2: \<^verbatim>\<open>save_state\<close> and \<^verbatim>\<open>load_state\<close>\<close>

lemma json_of_functions_cases:
  "json_of_functions fs = (if fs = [] then Inr [] else Inl not_serializable)"
  by (cases fs) (simp_all add: json_of_callable_def)

lemma json_of_Agent_cases:
  "json_of_Agent a = (if functions a = [] then Inr (Agent_document a) else Inl not_serializable)"
  by (simp add: json_of_Agent_def json_of_functions_cases Agent_document_def)

lemma json_of_agents_no_functions:
  "no_functions ags \<Longrightarrow>
   json_of_agents ags = Inr (map (\<lambda>na. (fst na, Agent_document (snd na))) ags)"
  by (induction ags) (auto simp: no_functions_def json_of_Agent_cases)

lemma json_of_agents_callable:
  "\<not> no_functions ags \<Longrightarrow> json_of_agents ags = Inl not_serializable"
  by (induction ags) (auto simp: no_functions_def json_of_Agent_cases split: sum.splits)

lemma Agent_kwargs_document:
  "functions a = [] \<Longrightarrow> Agent_kwargs (Agent_document a) = Inr a"
  by (simp add: Agent_kwargs_def Agent_document_def Agent_fields_def and_then_def str_arg_def
      functions_arg_def float_arg_def int_arg_def)

lemma update_fresh: "k \<notin> fst ` set al \<Longrightarrow> AList.update k v al = al @ [(k, v)]"
  by (induction al) auto

lemma restore_agents_documents:
  "no_functions ags \<Longrightarrow> distinct (map fst (agents s) @ map fst ags) \<Longrightarrow>
   restore_agents (map (\<lambda>na. (fst na, Agent_document (snd na))) ags) s
     = (None, s\<lparr>agents := agents s @ ags\<rparr>)"
proof (induction ags arbitrary: s)
  case Nil
  show ?case by simp
next
  case (Cons na ags)
  obtain n a where na: "na = (n, a)" by (cases na)
  from Cons.prems na have fa: "functions a = []" and nf: "no_functions ags"
    by (simp_all add: no_functions_def)
  from Cons.prems na have fresh: "n \<notin> fst ` set (agents s)"
    by auto
  let ?s = "s\<lparr>agents := agents s @ [(n, a)]\<rparr>"
  from Cons.prems na have "distinct (map fst (agents ?s) @ map fst ags)"
    by auto
  from Cons.IH [OF nf this] show ?case
    using na fa fresh by (simp add: Agent_kwargs_document update_fresh)
qed

lemma Message_kwargs_document:
  "Message_kwargs E (json_of_Message m) w = (Inr m, w)"
  by (cases m)
     (simp add: Message_kwargs_def json_of_Message_def Message_fields_def and_then_def
        str_arg_def opt_str_arg_def opt_dict_arg_def Message_init_def split: option.split)

lemma restore_history_documents:
  "restore_history E (map json_of_Message ms) (s, w)
     = (None, s\<lparr>conversation_history := conversation_history s @ ms\<rparr>, w)"
  by (induction ms arbitrary: s) (simp_all add: Message_kwargs_document add_message_def)

text \<open>
  When no agent carries a callable, saving and then loading into any other \<^verbatim>\<open>Swarm\<close>
  brings back the agents, the history and the context items unchanged.
\<close>

lemma save_load_roundtrip:
  fixes w :: "json world"
  assumes "no_functions (agents s)" and "distinct (map fst (agents s))"
  shows "\<exists>w1. save_state E filename (s, w) = (Inr (), s, w1)
           \<and> (\<forall>s0. \<exists>s' w'. load_state E filename (s0, w1) = (Inr (), s', w')
                  \<and> agents s' = agents s
                  \<and> conversation_history s' = conversation_history s
                  \<and> dicts w' ! Swarm.context_variables s' = dicts w ! Swarm.context_variables s)"
  using assms
  by (simp add: save_state_def load_state_def now_def Let_def json_of_agents_no_functions
      update_conv' subscript_def items_def iterate_def and_then_def restore_agents_documents
      restore_history_documents dict_new_def)

text \<open>
  C2 asks that the round trip succeed when an agent has a non-empty \<^verbatim>\<open>functions\<close> list,
  the callables loading back as the empty list. The code does not get that far: with
  such an agent registered, \<^verbatim>\<open>save_state\<close> raises \<^verbatim>\<open>TypeError\<close> out of \<^verbatim>\<open>json.dump\<close>,
  the \<^verbatim>\<open>Swarm\<close> is unchanged, the file is left incomplete, and \<^verbatim>\<open>load_state\<close> on that file
  raises \<^verbatim>\<open>JSONDecodeError\<close>.
\<close>

theorem save_state_callable_fails:
  fixes w :: "json world"
  assumes "\<not> no_functions (agents s)"
  shows "(case save_state E filename (s, w) of (res, s', w') \<Rightarrow>
            res = Inl not_serializable
          \<and> s' = s
          \<and> map_of (files w') filename = Some Truncated
          \<and> fst (load_state E filename (s0, w')) = Inl JSONDecodeError)"
  using assms
  by (simp add: save_state_def load_state_def now_def Let_def json_of_agents_callable update_conv')

theorem save_state_callable_fails_witness:
  "\<not> no_functions (agents swarm_F) \<and>
   save_state env_echo ''state.json'' (swarm_F, world1)
     = (Inl (TypeError ''Object of type function is not JSON serializable''), swarm_F,
        world1\<lparr>ticks := 1, files := [(''state.json'', Truncated)]\<rparr>) \<and>
   fst (load_state env_echo ''state.json''
          (swarm_AB, world1\<lparr>ticks := 1, files := [(''state.json'', Truncated)]\<rparr>))
     = Inl JSONDecodeError"
proof -
  have a: "\<not> no_functions (agents swarm_F)"
    by (simp add: no_functions_def swarm_F_def agent_F_def)
  show ?thesis
    using a save_state_callable_fails [OF a, where E = env_echo and filename = "''state.json''"
        and w = world1 and ?s0.0 = swarm_AB]
    by (simp add: save_state_def now_def Let_def json_of_agents_callable world1_def
        not_serializable_def split: prod.splits)
qed

section \<open>C3: an unregistered agent name\<close>

text \<open>
  C3. For an agent name that is not in the registry, whatever the messages, the context
  override and \<^verbatim>\<open>max_turns\<close>, \<^verbatim>\<open>run\<close> raises the not-found error (a \<^verbatim>\<open>ValueError\<close> in the
  source) and leaves the \<^verbatim>\<open>Swarm\<close> and the world, hence the conversation history and the
  context dictionary, exactly as they were.
\<close>

theorem run_unregistered_atomic:
  "agent_name \<notin> set (list_agents s) \<Longrightarrow>
   run E agent_name msgs cv max_turns (s, w) = (Inl (not_found agent_name), s, w)"
proof -
  assume "agent_name \<notin> set (list_agents s)"
  then have "map_of (agents s) agent_name = None"
    by (simp add: list_agents_def map_of_eq_None_iff)
  then show ?thesis
    by (simp add: run_def)
qed

theorem run_unregistered_atomic_witness:
  "''C'' \<notin> set (list_agents swarm_AB) \<and>
   run env_echo ''C'' [user_msg ''hi''] (Some [(''k'', JInt 1)]) 10 (swarm_AB, world1)
     = (Inl (ValueError (''Agent '' @ CHR 0x27 # ''C'' @ CHR 0x27 # '' not found'')),
        swarm_AB, world1)"
proof -
  have a: "''C'' \<notin> set (list_agents swarm_AB)"
    by (simp add: list_agents_def swarm_AB_def)
  show ?thesis
    using a run_unregistered_atomic [OF a, of env_echo "[user_msg ''hi'']"
        "Some [(''k'', JInt 1)]" 10 world1]
    by (simp add: not_found_def quote_def)
qed

section \<open>C4: \<^verbatim>\<open>multi_agent_run\<close>\<close>

text \<open>
  The loop, from any accumulator and current message, when every remaining name is
  registered: it ends normally, adds one result per name, and sends one request per name
  whose last turn is the user turn carrying the current message of that round.
\<close>

lemma multi_agent_loop_registered:
  assumes "set ns \<subseteq> set (list_agents s)"
  shows "\<exists>rs s' w' qs hs.
           multi_agent_loop E ns acc cur (s, w) = (Inr (acc @ rs), s', w')
         \<and> agents s' = agents s
         \<and> map agent rs = map (\<lambda>n. the (get_agent n s)) ns
         \<and> list_all (\<lambda>r. length (messages r) = 1) rs
         \<and> outbox w' = outbox w @ qs
         \<and> map (\<lambda>q. hd (req_messages q)) qs = map (\<lambda>r. (''system'', instructions (agent r))) rs
         \<and> map (\<lambda>q. last (req_messages q)) qs
             = map (\<lambda>c. (''user'', c))
                 (take (length ns) (cur # map (\<lambda>r. content (last (messages r))) rs))
         \<and> conversation_history s' = conversation_history s @ hs
         \<and> map content (filter is_user hs)
             = take (length ns) (cur # map (\<lambda>r. content (last (messages r))) rs)"
  using assms
proof (induction ns arbitrary: acc cur s w)
  case Nil
  show ?case by simp
next
  case (Cons n ns)
  from Cons.prems obtain a where a: "map_of (agents s) n = Some a"
    by (cases "map_of (agents s) n") (auto simp: list_agents_def map_of_eq_None_iff)
  define m where "m = \<lparr>role = ''user'', content = cur, name = None, function_call = None,
                        timestamp = clock E (ticks w)\<rparr>"
  define w1 where "w1 = w\<lparr>ticks := Suc (ticks w)\<rparr>"
  have mi: "Message_init E ''user'' cur None None None w = (m, w1)"
    by (simp add: Message_init_def now_def m_def w1_def)
  obtain r s1 w2 where run1: "run E n [m] None 10 (s, w1) = (Inr r, s1, w2)"
    and r: "agent r = a" "\<exists>x. messages r = [x] \<and> \<not> is_user x"
    and s1: "agents s1 = agents s"
    and hist: "\<exists>tl. conversation_history s1 = conversation_history s @ m # tl
                 \<and> filter is_user tl = []"
    and w2: "outbox w2 = outbox w @ [request_of a (conversation_history s @ [m]) 10]"
    using a
    by (cases "completion E (client s) (ticks w1) (request_of a (conversation_history s @ [m]) 10)")
       (auto simp: run_registered Let_def w1_def reply_def is_user_def)
  from r(2) obtain x where x: "messages r = [x]" by blast
  let ?cur' = "content x"
  have sub: "set ns \<subseteq> set (list_agents s1)"
    using Cons.prems s1 by (simp add: list_agents_def)
  from Cons.IH [OF sub, of "acc @ [r]" ?cur' w2]
  obtain rs s' w' qs hs where
    loop: "multi_agent_loop E ns (acc @ [r]) ?cur' (s1, w2) = (Inr ((acc @ [r]) @ rs), s', w')"
    and ag: "agents s' = agents s1"
    and mp: "map agent rs = map (\<lambda>n. the (get_agent n s1)) ns"
    and la: "list_all (\<lambda>r. length (messages r) = 1) rs"
    and ob: "outbox w' = outbox w2 @ qs"
    and hq: "map (\<lambda>q. hd (req_messages q)) qs = map (\<lambda>r. (''system'', instructions (agent r))) rs"
    and lq: "map (\<lambda>q. last (req_messages q)) qs
             = map (\<lambda>c. (''user'', c))
                 (take (length ns) (?cur' # map (\<lambda>r. content (last (messages r))) rs))"
    and ch: "conversation_history s' = conversation_history s1 @ hs"
    and fu: "map content (filter is_user hs)
             = take (length ns) (?cur' # map (\<lambda>r. content (last (messages r))) rs)"
    by blast
  from hist obtain tl where tl: "conversation_history s1 = conversation_history s @ m # tl"
    "filter is_user tl = []" by blast
  have step: "multi_agent_loop E (n # ns) acc cur (s, w) = (Inr (acc @ r # rs), s', w')"
    using mi run1 x loop by simp
  have um: "is_user m" by (simp add: is_user_def m_def)
  show ?case
    apply (rule exI [where x = "r # rs"])
    apply (rule exI [where x = s'])
    apply (rule exI [where x = w'])
    apply (rule exI [where x = "request_of a (conversation_history s @ [m]) 10 # qs"])
    apply (rule exI [where x = "m # tl @ hs"])
    using step ag s1 mp la ob w2 hq lq ch fu tl um x r(1) a
    by (simp add: get_agent_def last_request_turn first_request_turn m_def)
qed

text \<open>
  C4. For every sequence of registered agent names, every initial text and every
  behaviour of the remote service (failing or not), \<^verbatim>\<open>multi_agent_run\<close> ends normally with
  one result per name, the \<open>i\<close>-th produced by the \<open>i\<close>-th named agent and wrapping one
  message. It sends one request per name, in order, each opening with the system turn of
  its agent and closing with a user turn whose content is the initial text for the first
  agent and, for each later agent, the content of the previous result verbatim. These
  inputs are exactly the user messages appended to the history, one per agent.
\<close>

theorem multi_agent_run_chain:
  assumes "set agent_sequence \<subseteq> set (list_agents s)"
  shows "\<exists>results s' w'.
           multi_agent_run E agent_sequence initial_message cv (s, w) = (Inr results, s', w')
         \<and> length results = length agent_sequence
         \<and> map agent results = map (\<lambda>n. the (get_agent n s)) agent_sequence
         \<and> list_all (\<lambda>r. length (messages r) = 1) results
         \<and> (let inputs = take (length agent_sequence)
                            (initial_message # map (\<lambda>r. content (last (messages r))) results);
                 sent = drop (length (outbox w)) (outbox w');
                 appended = drop (length (conversation_history s)) (conversation_history s')
             in map (\<lambda>q. hd (req_messages q)) sent
                  = map (\<lambda>r. (''system'', instructions (agent r))) results
              \<and> map (\<lambda>q. last (req_messages q)) sent = map (\<lambda>c. (''user'', c)) inputs
              \<and> map content (filter is_user appended) = inputs)"
proof -
  from multi_agent_loop_registered [OF assms, of E "[]" initial_message "merge_context cv s w"]
  obtain rs s' w' qs hs where
    loop: "multi_agent_loop E agent_sequence [] initial_message (s, merge_context cv s w)
             = (Inr rs, s', w')"
    and mp: "map agent rs = map (\<lambda>n. the (get_agent n s)) agent_sequence"
    and la: "list_all (\<lambda>r. length (messages r) = 1) rs"
    and ob: "outbox w' = outbox w @ qs"
    and hq: "map (\<lambda>q. hd (req_messages q)) qs = map (\<lambda>r. (''system'', instructions (agent r))) rs"
    and lq: "map (\<lambda>q. last (req_messages q)) qs
             = map (\<lambda>c. (''user'', c))
                 (take (length agent_sequence)
                    (initial_message # map (\<lambda>r. content (last (messages r))) rs))"
    and ch: "conversation_history s' = conversation_history s @ hs"
    and fu: "map content (filter is_user hs)
             = take (length agent_sequence)
                 (initial_message # map (\<lambda>r. content (last (messages r))) rs)"
    by auto
  from mp have len: "length rs = length agent_sequence"
    by (metis length_map)
  show ?thesis
    apply (rule exI [where x = rs])
    apply (rule exI [where x = s'])
    apply (rule exI [where x = w'])
    using loop mp la ob hq lq ch fu len
    by (simp add: multi_agent_run_def Let_def)
qed

text \<open>
  With \<open>A\<close> and \<open>B\<close> registered and the echoing remote, the second request ends with the
  user turn \<open>start\<close>, the content of the first result; with the remote down, it ends with
  the error text of the first result.
\<close>

theorem multi_agent_run_chain_witness:
  "set [''A'', ''B''] \<subseteq> set (list_agents swarm_AB) \<and>
   fst (multi_agent_run env_echo [''A'', ''B''] ''start'' None (swarm_AB, world1 :: json world))
     = Inr [\<lparr>messages = [reply env_echo agent_A 2 ''start''], agent = agent_A,
              context_variables = 1\<rparr>,
            \<lparr>messages = [reply env_echo agent_B 5 ''start''], agent = agent_B,
              context_variables = 2\<rparr>] \<and>
   map req_messages (outbox (snd (snd
       (multi_agent_run env_echo [''A'', ''B''] ''start'' None (swarm_AB, world1 :: json world)))))
     = [[(''system'', ''be A''), (''user'', ''start'')],
        [(''system'', ''be B''), (''user'', ''start''), (''assistant'', ''start''),
         (''user'', ''start'')]] \<and>
   map req_messages (outbox (snd (snd
       (multi_agent_run env_down [''A'', ''B''] ''start'' None (swarm_AB, world1 :: json world)))))
     = [[(''system'', ''be A''), (''user'', ''start'')],
        [(''system'', ''be B''), (''user'', ''start''), (''user'', ''Error: timeout'')]]"
proof -
  have a: "set [''A'', ''B''] \<subseteq> set (list_agents swarm_AB)"
    by (simp add: list_agents_def swarm_AB_def)
  show ?thesis
    using a
      multi_agent_run_chain [OF a, where E = env_echo and initial_message = "''start''"
        and cv = None and w = "world1 :: json world"]
      multi_agent_run_chain [OF a, where E = env_down and initial_message = "''start''"
        and cv = None and w = "world1 :: json world"]
    by (simp add: multi_agent_run_def run_def swarm_AB_def world1_def env_echo_def env_down_def
        Let_def Message_init_def now_def dict_copy_def add_message_def merge_context_def truthy_def
        request_of_def api_messages_def py_slice_from_def reply_def agent_A_def agent_B_def)
qed

section \<open>C5: the registry after a sequence of \<^verbatim>\<open>add_agent\<close> calls\<close>

lemma map_of_add_all:
  "map_of (agents (foldl (\<lambda>s a. add_agent a s) s as)) n =
     (case List.find (\<lambda>a. Agent.name a = n) (rev as) of
        Some a \<Rightarrow> Some a
      | None \<Rightarrow> map_of (agents s) n)"
  by (induction as rule: rev_induct) (auto simp: add_agent_def update_conv')

lemma keys_add_all:
  "set (map fst (agents (foldl (\<lambda>s a. add_agent a s) s as))) =
     set (map fst (agents s)) \<union> Agent.name ` set as"
  by (induction as rule: rev_induct) (auto simp: add_agent_def dom_update)

lemma distinct_add_all:
  "distinct (map fst (agents s)) \<Longrightarrow>
   distinct (map fst (agents (foldl (\<lambda>s a. add_agent a s) s as)))"
  by (induction as rule: rev_induct) (auto simp: add_agent_def intro: distinct_update)

text \<open>
  C5. Starting from an empty registry, after \<^verbatim>\<open>add_agent\<close> has been called with the agents
  \<open>as\<close> in order (names may repeat), \<^verbatim>\<open>list_agents\<close> yields exactly the names that occur in
  \<open>as\<close>, each once, and \<^verbatim>\<open>get_agent\<close> on any name yields the agent added last under that
  name (and nothing for a name that was never added).
\<close>

theorem add_agent_last_write_wins:
  assumes "agents s = []"
  shows "(let s' = foldl (\<lambda>s a. add_agent a s) s as
          in set (list_agents s') = Agent.name ` set as
           \<and> distinct (list_agents s')
           \<and> (\<forall>n. get_agent n s' = List.find (\<lambda>a. Agent.name a = n) (rev as)))"
  using assms keys_add_all [of s as] distinct_add_all [of s as] map_of_add_all [of s as]
  by (auto simp: Let_def list_agents_def get_agent_def split: option.split)

theorem add_agent_last_write_wins_witness:
  "agents (swarm_AB\<lparr>agents := []\<rparr>) = [] \<and>
   (let s' = foldl (\<lambda>s a. add_agent a s) (swarm_AB\<lparr>agents := []\<rparr>)
               [agent_A, agent_B, agent_A\<lparr>instructions := ''be A, again''\<rparr>]
    in list_agents s' = [''A'', ''B'']
     \<and> get_agent ''A'' s' = Some (agent_A\<lparr>instructions := ''be A, again''\<rparr>)
     \<and> get_agent ''B'' s' = Some agent_B
     \<and> get_agent ''C'' s' = None)"
proof -
  have a: "agents (swarm_AB\<lparr>agents := []\<rparr>) = []" by simp
  show ?thesis
    using a add_agent_last_write_wins [OF a,
        of "[agent_A, agent_B, agent_A\<lparr>instructions := ''be A, again''\<rparr>]"]
    by (simp add: Let_def add_agent_def list_agents_def get_agent_def agent_A_def agent_B_def
        swarm_AB_def)
qed

section \<open>C6: the history window of the outbound request\<close>

text \<open>
  C6. For a registered agent and a positive \<^verbatim>\<open>max_turns\<close> \<open>limit\<close>, let \<open>h\<close> be the stored
  history at the time the request is built (the old history followed by the new
  messages). The request that \<^verbatim>\<open>run\<close> sends consists of the system turn followed by the
  last \<open>min limit (length h)\<close> messages of \<open>h\<close> in their stored order, and taking that
  view removes nothing from the stored history: \<open>h\<close> is still its beginning after the
  call.
\<close>

theorem run_history_window:
  assumes "0 < limit" and "map_of (agents s) agent_name = Some a"
  shows "(case run E agent_name msgs cv limit (s, w) of (res, s', w') \<Rightarrow>
           (let h = conversation_history s @ msgs;
                view = drop (length h - min (nat limit) (length h)) h
            in outbox w' = outbox w @ [request_of a h limit]
             \<and> req_messages (request_of a h limit)
                 = (''system'', instructions a) # map (\<lambda>m. (role m, content m)) view
             \<and> length view = min (nat limit) (length h)
             \<and> prefix h (conversation_history s')))"
  using assms
  by (simp add: run_registered Let_def request_of_def api_messages_def py_slice_from_neg
      split: sum.split)

text \<open>Five stored messages and limit 2: the request shows the last two, and all five stay.\<close>

theorem run_history_window_witness:
  "(0::int) < 2 \<and> map_of (agents swarm_AB) ''A'' = Some agent_A \<and>
   (case run env_echo ''A'' [user_msg ''4'', user_msg ''5''] None 2
           (swarm_AB\<lparr>conversation_history := [user_msg ''1'', user_msg ''2'', user_msg ''3'']\<rparr>,
            world1 :: json world) of
      (res, s', w') \<Rightarrow>
        map req_messages (outbox w')
          = [[(''system'', ''be A''), (''user'', ''4''), (''user'', ''5'')]]
      \<and> take 5 (conversation_history s')
          = [user_msg ''1'', user_msg ''2'', user_msg ''3'', user_msg ''4'', user_msg ''5''])"
proof -
  have a: "(0::int) < 2" by simp
  have b: "map_of (agents (swarm_AB\<lparr>conversation_history :=
              [user_msg ''1'', user_msg ''2'', user_msg ''3'']\<rparr>)) ''A'' = Some agent_A"
    by (simp add: swarm_AB_def)
  show ?thesis
    using a b run_history_window [OF a b, where E = env_echo
        and msgs = "[user_msg ''4'', user_msg ''5'']" and cv = None and w = "world1 :: json world"]
    by (auto simp: Let_def world1_def swarm_AB_def agent_A_def user_msg_def prefix_def
        split: prod.splits)
qed

section \<open>C7: the credential\<close>

text \<open>
  C7. When neither the \<^verbatim>\<open>api_key\<close> parameter nor the environment gives a non-empty
  credential, \<^verbatim>\<open>Swarm.__init__\<close> raises the configuration error (a \<^verbatim>\<open>ValueError\<close> in the
  source) and builds nothing. When one of them does, construction succeeds and the
  client holds that non-empty credential, the parameter taking precedence. Afterwards
  no call of \<^verbatim>\<open>run\<close> raises on account of the credential: the only error \<^verbatim>\<open>run\<close> can raise
  is the not-found error for an unregistered name, whatever the remote service answers,
  and \<^verbatim>\<open>run\<close> leaves the client as it was.
\<close>

theorem Swarm_init_credential:
  "(\<not> truthy api_key \<and> \<not> truthy (getenv E ''OPENAI_API_KEY'') \<longrightarrow>
      Swarm_init E api_key w = (Inl (ValueError key_required), w))
   \<and> (truthy api_key \<or> truthy (getenv E ''OPENAI_API_KEY'') \<longrightarrow>
        (\<exists>s w'. Swarm_init E api_key w = (Inr s, w')
               \<and> client s = the (if truthy api_key then api_key else getenv E ''OPENAI_API_KEY'')
               \<and> client s \<noteq> []))
   \<and> (\<forall>e. fst (run E n msgs cv mt (s, u)) = Inl e \<longrightarrow>
            e = not_found n \<and> n \<notin> set (list_agents s))
   \<and> client (fst (snd (run E n msgs cv mt (s, u)))) = client s"
proof (intro conjI impI allI)
  assume "\<not> truthy api_key \<and> \<not> truthy (getenv E ''OPENAI_API_KEY'')"
  then show "Swarm_init E api_key w = (Inl (ValueError key_required), w)"
    by (simp add: Swarm_init_def Let_def)
next
  assume "truthy api_key \<or> truthy (getenv E ''OPENAI_API_KEY'')"
  then show "\<exists>s w'. Swarm_init E api_key w = (Inr s, w')
               \<and> client s = the (if truthy api_key then api_key else getenv E ''OPENAI_API_KEY'')
               \<and> client s \<noteq> []"
    by (auto simp: Swarm_init_def Swarm_new_def dict_new_def Let_def truthy_def
        split: option.splits)
next
  fix e assume "fst (run E n msgs cv mt (s, u)) = Inl e"
  then show "e = not_found n" and "n \<notin> set (list_agents s)"
    using run_error_is_not_found by blast+
next
  show "client (fst (snd (run E n msgs cv mt (s, u)))) = client s"
    by (rule run_client)
qed

theorem Swarm_init_credential_witness:
  "\<not> truthy None \<and> \<not> truthy (getenv env_echo ''OPENAI_API_KEY'') \<and>
   Swarm_init env_echo None (world1 :: json world) = (Inl (ValueError key_required), world1) \<and>
   truthy (getenv env_key ''OPENAI_API_KEY'') \<and>
   fst (Swarm_init env_key None (world1 :: json world))
     = Inr \<lparr>client = ''sk-env'', agents = [], conversation_history = [],
            context_variables = 1\<rparr> \<and>
   truthy (Some ''sk-arg'') \<and>
   fst (Swarm_init env_key (Some ''sk-arg'') (world1 :: json world))
     = Inr \<lparr>client = ''sk-arg'', agents = [], conversation_history = [],
            context_variables = 1\<rparr> \<and>
   fst (run env_key ''C'' [] None 10 (swarm_AB, world1 :: json world)) = Inl (not_found ''C'') \<and>
   ''C'' \<notin> set (list_agents swarm_AB) \<and>
   fst (run env_key ''A'' [] None 10 (swarm_AB, world1 :: json world))
     = Inr \<lparr>messages = [reply env_key agent_A 1 ''Error: 401 invalid api key''],
            agent = agent_A, context_variables = 1\<rparr>"
proof -
  have a: "fst (run env_key ''C'' [] None 10 (swarm_AB, world1 :: json world))
             = Inl (not_found ''C'')"
    by (simp add: run_def swarm_AB_def)
  have b: "fst (run env_key ''A'' [] None 10 (swarm_AB, world1 :: json world))
     = Inr \<lparr>messages = [reply env_key agent_A 1 ''Error: 401 invalid api key''],
            agent = agent_A, context_variables = 1\<rparr>"
    by (simp add: run_registered [where a = agent_A] swarm_AB_def Let_def env_key_def world1_def)
  show ?thesis
    using a b
      Swarm_init_credential [where api_key = None and E = env_echo and w = "world1 :: json world"]
      Swarm_init_credential [where api_key = None and E = env_key and w = "world1 :: json world"]
      Swarm_init_credential [where api_key = "Some ''sk-arg''" and E = env_key
        and w = "world1 :: json world" and n = "''C''" and msgs = "[]" and cv = None
        and mt = 10 and s = swarm_AB and u = "world1 :: json world"]
    by (auto simp: truthy_def env_echo_def env_key_def Swarm_init_def Swarm_new_def dict_new_def
        world1_def Let_def)
qed

section \<open>C8: \<^verbatim>\<open>max_turns = 0\<close>\<close>

text \<open>
  C8. For a registered agent and a non-empty stored history \<open>h\<close> (the old history
  followed by the new messages), \<^verbatim>\<open>run\<close> with \<^verbatim>\<open>max_turns = 0\<close> sends a request whose
  window is all of \<open>h\<close>, because \<^verbatim>\<open>h[-0:]\<close> is \<^verbatim>\<open>h[0:]\<close>: the system turn is followed by
  every stored message, not by none.
\<close>

theorem run_max_turns_zero:
  assumes "map_of (agents s) agent_name = Some a"
      and "conversation_history s @ msgs \<noteq> []"
  shows "(case run E agent_name msgs cv 0 (s, w) of (res, s', w') \<Rightarrow>
           (let h = conversation_history s @ msgs
            in outbox w' = outbox w @ [request_of a h 0]
             \<and> req_messages (request_of a h 0)
                 = (''system'', instructions a) # map (\<lambda>m. (role m, content m)) h
             \<and> length (req_messages (request_of a h 0)) = Suc (length h)
             \<and> req_messages (request_of a h 0) \<noteq> [(''system'', instructions a)]))"
  using assms
  by (simp add: run_registered Let_def request_of_def api_messages_def py_slice_from_zero
      split: sum.split)

theorem run_max_turns_zero_witness:
  "map_of (agents swarm_AB) ''A'' = Some agent_A \<and>
   (case run env_echo ''A'' [user_msg ''3''] None 0
           (swarm_AB\<lparr>conversation_history := [user_msg ''1'', user_msg ''2'']\<rparr>,
            world1 :: json world) of
      (res, s', w') \<Rightarrow>
        map req_messages (outbox w')
          = [[(''system'', ''be A''), (''user'', ''1''), (''user'', ''2''), (''user'', ''3'')]])"
proof -
  have b: "map_of (agents (swarm_AB\<lparr>conversation_history := [user_msg ''1'', user_msg ''2'']\<rparr>))
             ''A'' = Some agent_A"
    by (simp add: swarm_AB_def)
  have c: "conversation_history (swarm_AB\<lparr>conversation_history :=
             [user_msg ''1'', user_msg ''2'']\<rparr>) @ [user_msg ''3''] \<noteq> []"
    by simp
  show ?thesis
    using b run_max_turns_zero [OF b c, where E = env_echo and cv = None
        and w = "world1 :: json world"]
    by (auto simp: Let_def world1_def swarm_AB_def agent_A_def user_msg_def split: prod.splits)
qed

section \<open>C9: the context held by a result\<close>

text \<open>
  C9. Let \<^verbatim>\<open>run\<close> return a result \<open>r\<close> from a state whose context dictionary is an allocated
  object. The dictionary of \<open>r\<close> is an object of its own, with the items that the context
  dictionary has when the call completes. A later \<^verbatim>\<open>set_context\<close>, which rebinds or adds a
  top-level key, does not change the dictionary of \<open>r\<close>. But where the context holds a
  reference to a nested dictionary that existed before, the dictionary of \<open>r\<close> holds
  the same reference, so an item set inside that nested dictionary afterwards is seen
  through \<open>r\<close>.
\<close>

theorem result_context_shallow_copy:
  fixes w :: "pyval world"
  assumes "Swarm.context_variables s < length (dicts w)"
      and "run E agent_name msgs cv max_turns (s, w) = (Inr r, s', w')"
  shows "SwarmResult.context_variables r \<noteq> Swarm.context_variables s'
       \<and> dicts w' ! SwarmResult.context_variables r = dicts w' ! Swarm.context_variables s'
       \<and> (\<forall>k v. dicts (snd (set_context k v (s', w'))) ! SwarmResult.context_variables r
                  = dicts w' ! SwarmResult.context_variables r)
       \<and> (\<forall>k obj k' v'.
             map_of (dicts w' ! Swarm.context_variables s') k = Some (Ref obj)
               \<and> obj < length (dicts w) \<longrightarrow>
             map_of (dicts (dict_setitem obj k' v' w') ! SwarmResult.context_variables r) k
                = Some (Ref obj)
               \<and> map_of (dicts (dict_setitem obj k' v' w') ! obj) k' = Some v')"
proof -
  from assms(2) obtain a where a: "map_of (agents s) agent_name = Some a"
    by (cases "map_of (agents s) agent_name") (auto simp: run_def)
  let ?w1 = "merge_context cv s w"
  let ?c = "Swarm.context_variables s"
  from assms(2) a have r: "SwarmResult.context_variables r = length (dicts w)"
    and s': "Swarm.context_variables s' = ?c"
    and w': "dicts w' = dicts ?w1 @ [dicts ?w1 ! ?c]"
    by (auto simp: run_registered Let_def split: sum.splits)
  have len: "length (dicts ?w1) = length (dicts w)" by simp
  show ?thesis
    using assms(1) r s' w' len
    by (auto simp: set_context_def dict_setitem_def nth_append nth_list_update update_conv')
qed

text \<open>
  The context holds \<open>prefs\<close>, a reference to the nested dictionary at address 1. After
  the call the result has its own dictionary at address 2. Rebinding \<open>prefs\<close> changes
  dictionary 0 only; setting \<open>theme\<close> inside the nested dictionary changes dictionary 1,
  which both dictionary 0 and dictionary 2 refer to.
\<close>

theorem result_context_shallow_copy_witness:
  "Swarm.context_variables swarm_AB < length (dicts world_nested) \<and>
   run env_echo ''A'' [user_msg ''hi''] None 10 (swarm_AB, world_nested)
     = (Inr \<lparr>messages = [reply env_echo agent_A 1 ''hi''], agent = agent_A,
             context_variables = 2\<rparr>,
        swarm_AB\<lparr>conversation_history := [user_msg ''hi'', reply env_echo agent_A 1 ''hi'']\<rparr>,
        world_nested\<lparr>ticks := 2,
          dicts := [[(''prefs'', Ref 1)], [(''theme'', Imm (JStr ''dark''))], [(''prefs'', Ref 1)]],
          outbox := [request_of agent_A [user_msg ''hi''] 10]\<rparr>) \<and>
   dicts (snd (set_context ''prefs'' (Imm JNull)
            (swarm_AB\<lparr>conversation_history := [user_msg ''hi'', reply env_echo agent_A 1 ''hi'']\<rparr>,
             world_nested\<lparr>ticks := 2,
               dicts := [[(''prefs'', Ref 1)], [(''theme'', Imm (JStr ''dark''))],
                         [(''prefs'', Ref 1)]],
               outbox := [request_of agent_A [user_msg ''hi''] 10]\<rparr>)))
     = [[(''prefs'', Imm JNull)], [(''theme'', Imm (JStr ''dark''))], [(''prefs'', Ref 1)]] \<and>
   dicts (dict_setitem 1 ''theme'' (Imm (JStr ''light''))
            (world_nested\<lparr>ticks := 2,
               dicts := [[(''prefs'', Ref 1)], [(''theme'', Imm (JStr ''dark''))],
                         [(''prefs'', Ref 1)]],
               outbox := [request_of agent_A [user_msg ''hi''] 10]\<rparr>))
     = [[(''prefs'', Ref 1)], [(''theme'', Imm (JStr ''light''))], [(''prefs'', Ref 1)]]"
proof -
  have a: "Swarm.context_variables swarm_AB < length (dicts world_nested)"
    by (simp add: swarm_AB_def world_nested_def)
  have b: "run env_echo ''A'' [user_msg ''hi''] None 10 (swarm_AB, world_nested)
     = (Inr \<lparr>messages = [reply env_echo agent_A 1 ''hi''], agent = agent_A,
             context_variables = 2\<rparr>,
        swarm_AB\<lparr>conversation_history := [user_msg ''hi'', reply env_echo agent_A 1 ''hi'']\<rparr>,
        world_nested\<lparr>ticks := 2,
          dicts := [[(''prefs'', Ref 1)], [(''theme'', Imm (JStr ''dark''))], [(''prefs'', Ref 1)]],
          outbox := [request_of agent_A [user_msg ''hi''] 10]\<rparr>)"
    by (simp add: run_registered [where a = agent_A] swarm_AB_def world_nested_def Let_def
        env_echo_def request_of_def api_messages_def py_slice_from_def user_msg_def
        merge_context_def truthy_def)
  show ?thesis
    using a b result_context_shallow_copy [OF a b]
    by (simp add: set_context_def dict_setitem_def swarm_AB_def world_nested_def)
qed

section \<open>C10: \<^verbatim>\<open>multi_agent_run\<close> on the empty sequence\<close>

text \<open>
  C10. With an empty agent sequence and an allocated context dictionary,
  \<^verbatim>\<open>multi_agent_run\<close> returns the empty list, leaves the \<^verbatim>\<open>Swarm\<close> and so its conversation
  history unchanged and sends no request, yet the supplied context variables are merged
  into the context dictionary: every supplied key holds its supplied value, every other
  key its old one.
\<close>

theorem multi_agent_run_empty_sequence:
  assumes "Swarm.context_variables s < length (dicts w)"
  shows "(case multi_agent_run E [] initial_message cv (s, w) of (res, s', w') \<Rightarrow>
           (let given = (case cv of None \<Rightarrow> [] | Some d \<Rightarrow> d)
            in res = Inr []
             \<and> s' = s
             \<and> conversation_history s' = conversation_history s
             \<and> outbox w' = outbox w
             \<and> dicts w' ! Swarm.context_variables s'
                 = dict_update (dicts w ! Swarm.context_variables s) given
             \<and> (\<forall>k. map_of (dicts w' ! Swarm.context_variables s') k
                    = (case map_of (rev given) k of
                         Some v \<Rightarrow> Some v
                       | None \<Rightarrow> map_of (dicts w ! Swarm.context_variables s) k))))"
proof -
  let ?given = "case cv of None \<Rightarrow> [] | Some d \<Rightarrow> d"
  have "dicts (merge_context cv s w) ! Swarm.context_variables s
          = dict_update (dicts w ! Swarm.context_variables s) ?given"
    using assms
    by (cases cv) (auto simp: merge_context_def truthy_def dict_update_def)
  then show ?thesis
    by (simp add: multi_agent_run_def Let_def map_of_dict_update)
qed

theorem multi_agent_run_empty_sequence_witness:
  "Swarm.context_variables swarm_AB < length (dicts (world1 :: json world)) \<and>
   multi_agent_run env_echo [] ''start'' (Some [(''k'', JInt 1)]) (swarm_AB, world1)
     = (Inr [], swarm_AB, world1\<lparr>dicts := [[(''k'', JInt 1)]]\<rparr>)"
proof -
  have a: "Swarm.context_variables swarm_AB < length (dicts (world1 :: json world))"
    by (simp add: swarm_AB_def world1_def)
  show ?thesis
    using a multi_agent_run_empty_sequence [OF a, where E = env_echo
        and initial_message = "''start''" and cv = "Some [(''k'', JInt 1)]"]
    by (auto simp: Let_def swarm_AB_def world1_def multi_agent_run_def merge_context_def
        truthy_def dict_update_def)
qed

end
